theory Spec2Isabelle
  imports Main "HOL-Library.Signed_Division"
begin

section \<open>SphereOLED: the blink/button event dispatcher of main.c\<close>

text \<open>
  The program is a single C file. Its globals become one record that every function takes
  and returns; every call that leaves the file (applibs, the epoll/timerfd utilities, the
  OLED library) is appended to the field \<open>calls\<close>, and the value such a call returns is
  an input of the model. \<open>Log_Debug\<close> only prints and is left out of \<open>calls\<close>.
\<close>

subsection \<open>Data\<close>

text \<open>
  \<open>GPIO_Value_Type\<close> comes from applibs/gpio.h, which is not part of the sources: a line
  level has the two values the program names.
\<close>

datatype GPIO_Value_Type = GPIO_Value_Low | GPIO_Value_High

text \<open>\<open>struct timespec\<close>: seconds and nanoseconds.\<close>

type_synonym timespec = "int \<times> int"

text \<open>The two \<open>EventData\<close> objects (lines 125-126), one per handler.\<close>

datatype EventData = buttonEventData | blinkingLedTimerEventData

text \<open>
  Calls that leave main.c, in the order made. Where the source passes a file descriptor it
  is the first argument; a trailing \<open>int\<close> is the value the call returned. Board pin
  names and the scroll constants are macros of absent headers and are not recorded.
\<close>

datatype call =
    sigaction_SIGTERM int
  | CreateEpollFd int
  | GPIO_OpenAsInput int
  | CreateTimerFdAndAddToEpoll int timespec EventData int
  | GPIO_OpenAsOutput GPIO_Value_Type int
  | I2CMaster_Open int
  | I2CMaster_SetBusSpeed int int
  | OLED_Init int bool
  | OLED_SetTextPos int int
  | OLED_PutString string
  | OLED_SetInverseDisplay
  | OLED_SetNormalDisplay
  | OLED_ClearDisplay
  | OLED_ClearPos int int int
  | OLED_SetVerticalScrollProperties int int int
  | OLED_ActivateScroll
  | nanosleep timespec
  | ConsumeTimerFdEvent int int
  | GPIO_GetValue int int
  | GPIO_SetValue int GPIO_Value_Type int
  | SetTimerFdToPeriod int timespec int
  | epoll_wait int
  | close_fd int

record globals =
  ledBlinkRateButtonGpioFd :: int
  buttonPollTimerFd :: int
  blinkingLedGpioFd :: int
  blinkingLedTimerFd :: int
  i2cFd :: int
  epollFd :: int
  buttonState :: GPIO_Value_Type
  ledState :: GPIO_Value_Type
  blinkIntervalIndex :: int
  terminationRequired :: bool
  calls :: "call list"

text \<open>The initialisers of lines 29-46.\<close>

definition initial_globals :: globals where
  "initial_globals =
     \<lparr> ledBlinkRateButtonGpioFd = -1, buttonPollTimerFd = -1, blinkingLedGpioFd = -1,
       blinkingLedTimerFd = -1, i2cFd = -1, epollFd = -1,
       buttonState = GPIO_Value_High, ledState = GPIO_Value_High,
       blinkIntervalIndex = 0, terminationRequired = False, calls = [] \<rparr>"

definition numBlinkIntervals :: int where
  "numBlinkIntervals = 3"

definition blinkIntervals :: "timespec list" where
  "blinkIntervals = [(0, 125000000), (0, 250000000), (0, 500000000)]"

definition emit :: "call \<Rightarrow> globals \<Rightarrow> globals" where
  "emit c st = st\<lparr>calls := calls st @ [c]\<rparr>"

definition emits :: "call list \<Rightarrow> globals \<Rightarrow> globals" where
  "emits cs st = st\<lparr>calls := calls st @ cs\<rparr>"

subsection \<open>Handlers\<close>

definition TerminationHandler :: "globals \<Rightarrow> globals" where
  "TerminationHandler st = st\<lparr>terminationRequired := True\<rparr>"

text \<open>What the outside answers during one firing of the blink timer.\<close>

record blink_io =
  blink_consume :: int
  blink_set :: int

definition BlinkingLedTimerEventHandler :: "blink_io \<Rightarrow> globals \<Rightarrow> globals" where
  "BlinkingLedTimerEventHandler io st =
     (let st1 = emit (ConsumeTimerFdEvent (blinkingLedTimerFd st) (blink_consume io)) st in
      if blink_consume io \<noteq> 0 then st1\<lparr>terminationRequired := True\<rparr>
      else
        let st2 = st1\<lparr>ledState :=
                     (if ledState st1 = GPIO_Value_Low then GPIO_Value_High else GPIO_Value_Low)\<rparr>;
            result = blink_set io;
            st3 = emit (GPIO_SetValue (blinkingLedGpioFd st2) (ledState st2) result) st2
        in if result \<noteq> 0 then st3\<lparr>terminationRequired := True\<rparr> else st3)"

text \<open>
  What the outside answers during one firing of the poll timer: the results of
  \<open>ConsumeTimerFdEvent\<close>, of \<open>GPIO_GetValue\<close> with the level it stores, and of
  \<open>SetTimerFdToPeriod\<close>. An answer to a call the handler does not reach is not read.
\<close>

record button_io =
  btn_consume :: int
  btn_get :: int
  btn_value :: GPIO_Value_Type
  btn_rearm :: int

text \<open>The display commands of lines 100-112.\<close>

definition press_display :: "call list" where
  "press_display =
     [OLED_ClearDisplay,
      OLED_SetTextPos 1 1, OLED_PutString ''Hello World!'',
      OLED_SetTextPos 2 2, OLED_PutString ''Hello World!'',
      OLED_SetTextPos 3 3, OLED_PutString ''Hello World!'',
      OLED_SetTextPos 4 4, OLED_PutString ''Hello World!'',
      OLED_ClearPos 7 3 5,
      OLED_SetVerticalScrollProperties 3 6 1,
      OLED_ActivateScroll]"

text \<open>
  \<open>blinkIntervalIndex\<close> is a C \<open>int\<close>: \<open>%\<close> truncates towards zero (\<open>smod\<close>).
  The index starts at 0 and stays within 0..2 in every run (\<open>index_in_range\<close> below),
  so the addition does not overflow and the table is read within its bounds.
\<close>

definition ButtonTimerEventHandler :: "button_io \<Rightarrow> globals \<Rightarrow> globals" where
  "ButtonTimerEventHandler io st =
     (let st1 = emit (ConsumeTimerFdEvent (buttonPollTimerFd st) (btn_consume io)) st in
      if btn_consume io \<noteq> 0 then st1\<lparr>terminationRequired := True\<rparr>
      else
        let newButtonState = btn_value io;
            result = btn_get io;
            st2 = emit (GPIO_GetValue (ledBlinkRateButtonGpioFd st1) result) st1
        in
        if result \<noteq> 0 then st2\<lparr>terminationRequired := True\<rparr>
        else if newButtonState \<noteq> buttonState st2 then
          (if newButtonState = GPIO_Value_Low then
             let st3 = emits press_display st2;
                 st4 = st3\<lparr>blinkIntervalIndex :=
                              (blinkIntervalIndex st3 + 1) smod numBlinkIntervals\<rparr>;
                 st5 = emit (SetTimerFdToPeriod (blinkingLedTimerFd st4)
                               (blinkIntervals ! nat (blinkIntervalIndex st4)) (btn_rearm io)) st4;
                 st6 = (if btn_rearm io \<noteq> 0 then st5\<lparr>terminationRequired := True\<rparr> else st5)
             in st6\<lparr>buttonState := newButtonState\<rparr>
           else st2\<lparr>buttonState := newButtonState\<rparr>)
        else st2)"

subsection \<open>Initialisation and teardown\<close>

text \<open>
  The values returned to \<open>InitPeripheralsAndHandlers\<close>: those of the six opening calls,
  whose result the source tests, in the order of the calls; those of \<open>sigaction\<close> and
  \<open>I2CMaster_SetBusSpeed\<close>, which the source discards (lines 137 and 177); and whether
  SIGTERM arrives while it runs. The display calls belong to an absent library and
  nothing they return is read.
\<close>

record init_io =
  sigaction_ret :: int
  epoll_ret :: int
  button_gpio_ret :: int
  button_timer_ret :: int
  led_gpio_ret :: int
  led_timer_ret :: int
  i2c_ret :: int
  bus_speed_ret :: int
  sigterm_in_init :: bool

definition InitPeripheralsAndHandlers :: "init_io \<Rightarrow> globals \<Rightarrow> int \<times> globals" where
  "InitPeripheralsAndHandlers io st =
     (let st0 = emit (sigaction_SIGTERM (sigaction_ret io)) st;
          st1 = emit (CreateEpollFd (epoll_ret io)) (st0\<lparr>epollFd := epoll_ret io\<rparr>) in
      if epollFd st1 < 0 then (-1, st1)
      else
      let st2 = emit (GPIO_OpenAsInput (button_gpio_ret io))
                  (st1\<lparr>ledBlinkRateButtonGpioFd := button_gpio_ret io\<rparr>) in
      if ledBlinkRateButtonGpioFd st2 < 0 then (-1, st2)
      else
      let buttonPressCheckPeriod = (0, 1000000);
          st3 = emit (CreateTimerFdAndAddToEpoll (epollFd st2) buttonPressCheckPeriod
                        buttonEventData (button_timer_ret io))
                  (st2\<lparr>buttonPollTimerFd := button_timer_ret io\<rparr>) in
      if buttonPollTimerFd st3 < 0 then (-1, st3)
      else
      let st4 = emit (GPIO_OpenAsOutput GPIO_Value_High (led_gpio_ret io))
                  (st3\<lparr>blinkingLedGpioFd := led_gpio_ret io\<rparr>) in
      if blinkingLedGpioFd st4 < 0 then (-1, st4)
      else
      let st5 = emit (CreateTimerFdAndAddToEpoll (epollFd st4)
                        (blinkIntervals ! nat (blinkIntervalIndex st4))
                        blinkingLedTimerEventData (led_timer_ret io))
                  (st4\<lparr>blinkingLedTimerFd := led_timer_ret io\<rparr>) in
      if blinkingLedTimerFd st5 < 0 then (-1, st5)
      else
      let st6 = emit (I2CMaster_Open (i2c_ret io)) (st5\<lparr>i2cFd := i2c_ret io\<rparr>) in
      if i2cFd st6 < 0 then (-1, st6)
      else
      let waitPeriod = (0, 250 * 1000 * 1000);
          st7 = emits [I2CMaster_SetBusSpeed (i2cFd st6) (bus_speed_ret io),
                       OLED_Init (i2cFd st6) True,
                       OLED_SetTextPos 0 3,
                       OLED_PutString ''Display checked!'',
                       OLED_SetInverseDisplay,
                       nanosleep waitPeriod,
                       OLED_SetNormalDisplay] st6
      in (0, st7))"

text \<open>
  Modelled from the spec: \<open>CloseFdAndPrintError\<close> belongs to epoll_timerfd_utilities,
  which is not part of the sources. The specification has teardown release only what was
  opened, and tolerate a close that fails (it is logged, never propagated): the descriptor
  is closed when it is valid, that is not negative, and the result of the close is not
  read.
\<close>

definition CloseFdAndPrintError :: "int \<Rightarrow> string \<Rightarrow> globals \<Rightarrow> globals" where
  "CloseFdAndPrintError fd fdName st = (if 0 \<le> fd then emit (close_fd fd) st else st)"

text \<open>
  \<open>ClosePeripheralsAndHandlers\<close>; its argument \<open>set_ret\<close> is what the \<open>GPIO_SetValue\<close>
  of line 197 returns (the source discards it).
\<close>

definition ClosePeripheralsAndHandlers :: "int \<Rightarrow> globals \<Rightarrow> globals" where
  "ClosePeripheralsAndHandlers set_ret st =
     (let st1 = (if 0 \<le> blinkingLedGpioFd st
                 then emit (GPIO_SetValue (blinkingLedGpioFd st) GPIO_Value_High set_ret) st
                 else st);
          st2 = CloseFdAndPrintError (blinkingLedTimerFd st1) ''BlinkingLedTimer'' st1;
          st3 = CloseFdAndPrintError (blinkingLedGpioFd st2) ''BlinkingLedGpio'' st2;
          st4 = CloseFdAndPrintError (buttonPollTimerFd st3) ''ButtonPollTimer'' st3;
          st5 = CloseFdAndPrintError (ledBlinkRateButtonGpioFd st4) ''LedBlinkRateButtonGpio'' st4
      in CloseFdAndPrintError (epollFd st5) ''Epoll'' st5)"

subsection \<open>The dispatch loop and main\<close>

text \<open>What one call of \<open>WaitForEventAndCallHandler\<close> meets.\<close>

datatype wait_result =
    Wait_failed
  | Wait_interrupted
  | Wait_button button_io
  | Wait_blink blink_io

text \<open>
  Modelled from the spec: \<open>WaitForEventAndCallHandler\<close> belongs to
  epoll_timerfd_utilities, which is not part of the sources. By the specification it
  blocks until a registered source is ready or a signal interrupts the wait; on readiness
  it runs the handler bound to the ready source to completion and returns; it reports an
  error when the wait fails for another reason than a benign interruption.
\<close>

definition WaitForEventAndCallHandler :: "wait_result \<Rightarrow> globals \<Rightarrow> int \<times> globals" where
  "WaitForEventAndCallHandler w st =
     (let st1 = emit (epoll_wait (epollFd st)) st in
      case w of
        Wait_failed \<Rightarrow> (-1, st1)
      | Wait_interrupted \<Rightarrow> (0, st1)
      | Wait_button io \<Rightarrow> (0, ButtonTimerEventHandler io st1)
      | Wait_blink io \<Rightarrow> (0, BlinkingLedTimerEventHandler io st1))"

text \<open>
  One pass through the body of the \<open>while\<close> of lines 219-223. The second component of the
  event says whether SIGTERM is delivered during the pass: \<open>TerminationHandler\<close> only sets
  the flag, and nothing in the pass reads or clears it, so the moment of delivery inside
  the pass makes no difference to the state at the next test of the flag.
\<close>

type_synonym loop_event = "wait_result \<times> bool"

definition loop_body :: "loop_event \<Rightarrow> globals \<Rightarrow> globals" where
  "loop_body ev st =
     (let (rc, st1) = WaitForEventAndCallHandler (fst ev) st;
          st2 = (if rc \<noteq> 0 then st1\<lparr>terminationRequired := True\<rparr> else st1)
      in if snd ev then TerminationHandler st2 else st2)"

text \<open>
  The loop runs on the list of events the outside supplies and gives back the events it
  did not take. \<open>None\<close>: the list ended and the flag is still clear, the program is
  still waiting.
\<close>

fun dispatch_loop :: "globals \<Rightarrow> loop_event list \<Rightarrow> (globals \<times> loop_event list) option" where
  "dispatch_loop st [] = (if terminationRequired st then Some (st, []) else None)"
| "dispatch_loop st (ev # evs) =
     (if terminationRequired st then Some (st, ev # evs)
      else dispatch_loop (loop_body ev st) evs)"

text \<open>The state with which \<open>main\<close> reaches the loop (lines 213-216).\<close>

definition main_start :: "init_io \<Rightarrow> globals" where
  "main_start io =
     (let (rc, st) = InitPeripheralsAndHandlers io initial_globals;
          st1 = (if sigterm_in_init io then TerminationHandler st else st)
      in if rc \<noteq> 0 then st1\<lparr>terminationRequired := True\<rparr> else st1)"

record outcome =
  exit_code :: int
  final :: globals
  unconsumed :: "loop_event list"

definition main :: "init_io \<Rightarrow> loop_event list \<Rightarrow> int \<Rightarrow> outcome option" where
  "main io evs set_ret =
     (case dispatch_loop (main_start io) evs of
        None \<Rightarrow> None
      | Some (st, rest) \<Rightarrow>
          Some \<lparr> exit_code = 0, final = ClosePeripheralsAndHandlers set_ret st,
                 unconsumed = rest \<rparr>)"

subsection \<open>Reading the record of calls\<close>

text \<open>The timer and period of every \<open>SetTimerFdToPeriod\<close>, in order.\<close>

fun rearm_of :: "call \<Rightarrow> (int \<times> timespec) list" where
  "rearm_of (SetTimerFdToPeriod fd p rc) = [(fd, p)]"
| "rearm_of _ = []"

definition rearms :: "call list \<Rightarrow> (int \<times> timespec) list" where
  "rearms tr = concat (map rearm_of tr)"

text \<open>
  The press branch of \<open>ButtonTimerEventHandler\<close> (lines 100-118) is the only place that
  calls \<open>SetTimerFdToPeriod\<close>, and it does so once: the number of press events a record
  holds is the number of these calls.
\<close>

definition presses :: "call list \<Rightarrow> nat" where
  "presses tr = length (rearms tr)"

text \<open>The line and level of every \<open>GPIO_SetValue\<close>, in order.\<close>

fun write_of :: "call \<Rightarrow> (int \<times> GPIO_Value_Type) list" where
  "write_of (GPIO_SetValue fd v rc) = [(fd, v)]"
| "write_of _ = []"

definition writes :: "call list \<Rightarrow> (int \<times> GPIO_Value_Type) list" where
  "writes tr = concat (map write_of tr)"

text \<open>The descriptors closed, in order.\<close>

fun close_of :: "call \<Rightarrow> int list" where
  "close_of (close_fd fd) = [fd]"
| "close_of _ = []"

definition closes :: "call list \<Rightarrow> int list" where
  "closes tr = concat (map close_of tr)"

text \<open>The value returned by every call that opens a descriptor, in order.\<close>

fun open_of :: "call \<Rightarrow> int list" where
  "open_of (CreateEpollFd r) = [r]"
| "open_of (GPIO_OpenAsInput r) = [r]"
| "open_of (CreateTimerFdAndAddToEpoll e p d r) = [r]"
| "open_of (GPIO_OpenAsOutput v r) = [r]"
| "open_of (I2CMaster_Open r) = [r]"
| "open_of _ = []"

definition opens :: "call list \<Rightarrow> int list" where
  "opens tr = concat (map open_of tr)"

text \<open>The number of times the program waited for an event.\<close>

fun wait_of :: "call \<Rightarrow> int list" where
  "wait_of (epoll_wait fd) = [fd]"
| "wait_of _ = []"

definition waits :: "call list \<Rightarrow> nat" where
  "waits tr = length (concat (map wait_of tr))"

text \<open>
  The level of the output line \<open>fd\<close> after a record of calls: the level it was opened
  with, then the level of the last \<open>GPIO_SetValue\<close> on it that reported success. A write
  that reports failure is taken to leave the line as it was. \<open>None\<close>: never opened.
\<close>

fun line_step :: "int \<Rightarrow> GPIO_Value_Type option \<Rightarrow> call \<Rightarrow> GPIO_Value_Type option" where
  "line_step fd lv (GPIO_OpenAsOutput v r) = (if r = fd \<and> 0 \<le> r then Some v else lv)"
| "line_step fd lv (GPIO_SetValue fd' v rc) = (if fd' = fd \<and> rc = 0 then Some v else lv)"
| "line_step fd lv _ = lv"

definition line_level :: "int \<Rightarrow> call list \<Rightarrow> GPIO_Value_Type option" where
  "line_level fd tr = foldl (line_step fd) None tr"

subsection \<open>Vocabulary of the properties\<close>

text \<open>The other level of a line.\<close>

fun toggled :: "GPIO_Value_Type \<Rightarrow> GPIO_Value_Type" where
  "toggled GPIO_Value_Low = GPIO_Value_High"
| "toggled GPIO_Value_High = GPIO_Value_Low"

text \<open>The stored output level is the level of the output line.\<close>

definition line_agrees :: "globals \<Rightarrow> bool" where
  "line_agrees st = (line_level (blinkingLedGpioFd st) (calls st) = Some (ledState st))"

text \<open>The six descriptor variables, in the order in which initialisation assigns them.\<close>

definition descriptors :: "globals \<Rightarrow> int list" where
  "descriptors st =
     [epollFd st, ledBlinkRateButtonGpioFd st, buttonPollTimerFd st,
      blinkingLedGpioFd st, blinkingLedTimerFd st, i2cFd st]"

text \<open>The results of the six opening calls of initialisation, in the order of creation.\<close>

definition init_steps :: "init_io \<Rightarrow> int list" where
  "init_steps io =
     [epoll_ret io, button_gpio_ret io, button_timer_ret io,
      led_gpio_ret io, led_timer_ret io, i2c_ret io]"

text \<open>The descriptors opened before the first step that fails.\<close>

definition opened :: "init_io \<Rightarrow> int list" where
  "opened io = takeWhile (\<lambda>fd. 0 \<le> fd) (init_steps io)"

text \<open>An event that sets the termination flag whatever the state.\<close>

fun ends_loop :: "loop_event \<Rightarrow> bool" where
  "ends_loop (w, True) = True"
| "ends_loop (Wait_failed, False) = True"
| "ends_loop (Wait_interrupted, False) = False"
| "ends_loop (Wait_button io, False) = (btn_consume io \<noteq> 0 \<or> btn_get io \<noteq> 0)"
| "ends_loop (Wait_blink io, False) = (blink_consume io \<noteq> 0 \<or> blink_set io \<noteq> 0)"

subsection \<open>Sample inputs\<close>

text \<open>Every opening call succeeds and hands out the descriptors 3 to 8.\<close>

definition all_open :: init_io where
  "all_open = \<lparr> sigaction_ret = 0, epoll_ret = 3, button_gpio_ret = 4, button_timer_ret = 5,
                 led_gpio_ret = 6, led_timer_ret = 7, i2c_ret = 8, bus_speed_ret = 0,
                 sigterm_in_init = False \<rparr>"

text \<open>The output line cannot be opened.\<close>

definition led_unavailable :: init_io where
  "led_unavailable = all_open\<lparr>led_gpio_ret := -1\<rparr>"

text \<open>Every descriptor is opened and setting the speed of the bus fails.\<close>

definition bus_speed_fails :: init_io where
  "bus_speed_fails = all_open\<lparr>bus_speed_ret := -1\<rparr>"

definition poll_low :: button_io where
  "poll_low = \<lparr> btn_consume = 0, btn_get = 0, btn_value = GPIO_Value_Low, btn_rearm = 0 \<rparr>"

definition poll_high :: button_io where
  "poll_high = \<lparr> btn_consume = 0, btn_get = 0, btn_value = GPIO_Value_High, btn_rearm = 0 \<rparr>"

definition poll_read_fails :: button_io where
  "poll_read_fails = poll_low\<lparr>btn_get := -1\<rparr>"

definition poll_rearm_fails :: button_io where
  "poll_rearm_fails = poll_low\<lparr>btn_rearm := -1\<rparr>"

definition blink_ok :: blink_io where
  "blink_ok = \<lparr> blink_consume = 0, blink_set = 0 \<rparr>"

definition blink_write_fails :: blink_io where
  "blink_write_fails = \<lparr> blink_consume = 0, blink_set = -1 \<rparr>"

section \<open>Auxiliary facts\<close>

subsection \<open>Facts about the record of calls\<close>

lemma rearms_Nil: "rearms [] = []"
  by (simp add: rearms_def)

lemma rearms_Cons: "rearms (c # cs) = rearm_of c @ rearms cs"
  by (simp add: rearms_def)

lemma rearms_append: "rearms (xs @ ys) = rearms xs @ rearms ys"
  by (simp add: rearms_def)

lemmas rearms_simps = rearms_Nil rearms_Cons rearms_append

lemma rearms_press_display: "rearms press_display = []"
  by (simp add: rearms_simps press_display_def)

lemma writes_Nil: "writes [] = []"
  by (simp add: writes_def)

lemma writes_Cons: "writes (c # cs) = write_of c @ writes cs"
  by (simp add: writes_def)

lemma writes_append: "writes (xs @ ys) = writes xs @ writes ys"
  by (simp add: writes_def)

lemmas writes_simps = writes_Nil writes_Cons writes_append

lemma closes_Nil: "closes [] = []"
  by (simp add: closes_def)

lemma closes_Cons: "closes (c # cs) = close_of c @ closes cs"
  by (simp add: closes_def)

lemma closes_append: "closes (xs @ ys) = closes xs @ closes ys"
  by (simp add: closes_def)

lemmas closes_simps = closes_Nil closes_Cons closes_append

lemma opens_Nil: "opens [] = []"
  by (simp add: opens_def)

lemma opens_Cons: "opens (c # cs) = open_of c @ opens cs"
  by (simp add: opens_def)

lemma opens_append: "opens (xs @ ys) = opens xs @ opens ys"
  by (simp add: opens_def)

lemmas opens_simps = opens_Nil opens_Cons opens_append

lemma waits_Nil: "waits [] = 0"
  by (simp add: waits_def)

lemma waits_Cons: "waits (c # cs) = length (wait_of c) + waits cs"
  by (simp add: waits_def)

lemma waits_append: "waits (xs @ ys) = waits xs + waits ys"
  by (simp add: waits_def)

lemmas waits_simps = waits_Nil waits_Cons waits_append

lemma line_level_append: "line_level fd (tr @ cs) = foldl (line_step fd) (line_level fd tr) cs"
  by (simp add: line_level_def)

lemma map_upt_shift:
  "map f [Suc 0..<Suc (Suc n)] = f (Suc 0) # map (\<lambda>k. f (Suc k)) [Suc 0..<Suc n]"
proof -
  have "[Suc 0..<Suc (Suc n)] = Suc 0 # map Suc [Suc 0..<Suc n]"
    by (simp add: map_Suc_upt upt_conv_Cons del: upt_Suc)
  then show ?thesis by (simp add: comp_def del: upt_Suc)
qed


subsection \<open>The poll handler\<close>

lemma smod_nonneg: "0 \<le> k \<Longrightarrow> k smod numBlinkIntervals = k mod 3"
  by (cases "k = 0") (simp_all add: signed_modulo_int_def numBlinkIntervals_def)

lemma button_read_fails:
  assumes "btn_consume b = 0" "btn_get b \<noteq> 0"
  shows "ButtonTimerEventHandler b st =
     st\<lparr>calls := calls st @ [ConsumeTimerFdEvent (buttonPollTimerFd st) 0,
                               GPIO_GetValue (ledBlinkRateButtonGpioFd st) (btn_get b)],
        terminationRequired := True\<rparr>"
  using assms by (simp add: ButtonTimerEventHandler_def Let_def emit_def)

lemma button_step_cases:
  assumes "0 \<le> blinkIntervalIndex st" "blinkIntervalIndex st < 3"
  shows "blinkingLedTimerFd (ButtonTimerEventHandler io st) = blinkingLedTimerFd st \<and>
    ((rearms (calls (ButtonTimerEventHandler io st)) = rearms (calls st) \<and>
      blinkIntervalIndex (ButtonTimerEventHandler io st) = blinkIntervalIndex st) \<or>
     (blinkIntervalIndex (ButtonTimerEventHandler io st) = (blinkIntervalIndex st + 1) mod 3 \<and>
      rearms (calls (ButtonTimerEventHandler io st)) =
        rearms (calls st) @ [(blinkingLedTimerFd st,
           blinkIntervals ! nat ((blinkIntervalIndex st + 1) mod 3))]))"
  using assms
  by (simp add: ButtonTimerEventHandler_def Let_def emit_def emits_def rearms_simps
      rearms_press_display smod_nonneg)

lemma poll_run_index:
  "0 \<le> blinkIntervalIndex st \<Longrightarrow> blinkIntervalIndex st < 3 \<Longrightarrow>
   \<exists>n. rearms (calls (fold ButtonTimerEventHandler ios st)) =
          rearms (calls st) @
          map (\<lambda>k. (blinkingLedTimerFd st, blinkIntervals ! nat ((blinkIntervalIndex st + int k) mod 3)))
            [1..<Suc n] \<and>
        blinkIntervalIndex (fold ButtonTimerEventHandler ios st) = (blinkIntervalIndex st + int n) mod 3"
proof (induction ios arbitrary: st)
  case Nil
  then show ?case by (intro exI[of _ 0]) simp
next
  case (Cons io ios)
  let ?s = "ButtonTimerEventHandler io st"
  from button_step_cases[OF Cons.prems, of io]
  have fd: "blinkingLedTimerFd ?s = blinkingLedTimerFd st"
    and alt: "(rearms (calls ?s) = rearms (calls st) \<and> blinkIntervalIndex ?s = blinkIntervalIndex st) \<or>
     (blinkIntervalIndex ?s = (blinkIntervalIndex st + 1) mod 3 \<and>
      rearms (calls ?s) = rearms (calls st) @ [(blinkingLedTimerFd st,
           blinkIntervals ! nat ((blinkIntervalIndex st + 1) mod 3))])"
    by blast+
  from alt Cons.prems have rng: "0 \<le> blinkIntervalIndex ?s" "blinkIntervalIndex ?s < 3"
    by auto
  from Cons.IH[OF rng] obtain n where
    r: "rearms (calls (fold ButtonTimerEventHandler ios ?s)) =
          rearms (calls ?s) @
          map (\<lambda>k. (blinkingLedTimerFd ?s, blinkIntervals ! nat ((blinkIntervalIndex ?s + int k) mod 3)))
            [1..<Suc n]"
    and i: "blinkIntervalIndex (fold ButtonTimerEventHandler ios ?s) = (blinkIntervalIndex ?s + int n) mod 3"
    by blast
  from alt show ?case
  proof
    assume "rearms (calls ?s) = rearms (calls st) \<and> blinkIntervalIndex ?s = blinkIntervalIndex st"
    with r i fd show ?thesis by (intro exI[of _ n]) simp
  next
    assume p: "blinkIntervalIndex ?s = (blinkIntervalIndex st + 1) mod 3 \<and>
      rearms (calls ?s) = rearms (calls st) @ [(blinkingLedTimerFd st,
           blinkIntervals ! nat ((blinkIntervalIndex st + 1) mod 3))]"
    have e: "((blinkIntervalIndex st + 1) mod 3 + int k) mod 3 = (blinkIntervalIndex st + int (Suc k)) mod 3" for k
      by presburger
    show ?thesis
      using r i fd p
      by (intro exI[of _ "Suc n"]) (simp add: map_upt_shift e del: upt_Suc of_nat_Suc, simp)
  qed
qed

lemma button_step_level:
  "btn_consume io = 0 \<Longrightarrow> btn_get io = 0 \<Longrightarrow> buttonState (ButtonTimerEventHandler io st) = btn_value io"
  by (simp add: ButtonTimerEventHandler_def Let_def emit_def emits_def)

lemma button_step_presses:
  "btn_consume io = 0 \<Longrightarrow> btn_get io = 0 \<Longrightarrow>
   presses (calls (ButtonTimerEventHandler io st)) =
   presses (calls st) + (if buttonState st = GPIO_Value_High \<and> btn_value io = GPIO_Value_Low then 1 else 0)"
  by (cases "buttonState st"; cases "btn_value io")
    (simp_all add: ButtonTimerEventHandler_def Let_def emit_def emits_def presses_def rearms_simps rearms_press_display)

lemma low_run:
  "\<forall>io\<in>set ios. btn_consume io = 0 \<and> btn_get io = 0 \<and> btn_value io = GPIO_Value_Low \<Longrightarrow>
   presses (calls (fold ButtonTimerEventHandler ios st)) =
   presses (calls st) + (if buttonState st = GPIO_Value_High \<and> ios \<noteq> [] then 1 else 0)"
proof (induction ios arbitrary: st)
  case Nil
  then show ?case by simp
next
  case (Cons io ios)
  from Cons.prems have ok: "btn_consume io = 0" "btn_get io = 0" and lo: "btn_value io = GPIO_Value_Low"
    and rest: "\<forall>io\<in>set ios. btn_consume io = 0 \<and> btn_get io = 0 \<and> btn_value io = GPIO_Value_Low"
    by simp_all
  have a: "presses (calls (ButtonTimerEventHandler io st)) =
     presses (calls st) + (if buttonState st = GPIO_Value_High then 1 else 0)"
    using button_step_presses[OF ok, of st] lo by simp
  have b: "buttonState (ButtonTimerEventHandler io st) = GPIO_Value_Low"
    using button_step_level[OF ok, of st] lo by simp
  have c: "fold ButtonTimerEventHandler (io # ios) st =
           fold ButtonTimerEventHandler ios (ButtonTimerEventHandler io st)"
    by simp
  show ?case
    unfolding c Cons.IH[OF rest, of "ButtonTimerEventHandler io st"] a b by simp
qed


subsection \<open>The blink handler\<close>

lemma toggled_neq: "toggled v \<noteq> v"
  by (cases v) simp_all

lemma toggled_twice: "toggled (toggled v) = v"
  by (cases v) simp_all

lemma blink_step_ok:
  assumes "blink_consume io = 0" "blink_set io = 0"
  shows "ledState (BlinkingLedTimerEventHandler io st) = toggled (ledState st)"
    and "blinkingLedGpioFd (BlinkingLedTimerEventHandler io st) = blinkingLedGpioFd st"
    and "writes (calls (BlinkingLedTimerEventHandler io st)) =
           writes (calls st) @ [(blinkingLedGpioFd st, toggled (ledState st))]"
    and "terminationRequired (BlinkingLedTimerEventHandler io st) = terminationRequired st"
  using assms
  by (cases "ledState st"; simp add: BlinkingLedTimerEventHandler_def Let_def emit_def writes_simps)+

lemma blink_run:
  "\<forall>io\<in>set ios. blink_consume io = 0 \<and> blink_set io = 0 \<Longrightarrow>
   ledState (fold BlinkingLedTimerEventHandler ios st) = (toggled ^^ length ios) (ledState st) \<and>
   writes (calls (fold BlinkingLedTimerEventHandler ios st)) =
     writes (calls st) @
     map (\<lambda>k. (blinkingLedGpioFd st, (toggled ^^ k) (ledState st))) [1..<Suc (length ios)]"
proof (induction ios arbitrary: st)
  case Nil
  then show ?case by simp
next
  case (Cons io ios)
  from Cons.prems have ok: "blink_consume io = 0" "blink_set io = 0"
    and rest: "\<forall>io\<in>set ios. blink_consume io = 0 \<and> blink_set io = 0"
    by simp_all
  let ?s = "BlinkingLedTimerEventHandler io st"
  have c: "fold BlinkingLedTimerEventHandler (io # ios) st = fold BlinkingLedTimerEventHandler ios ?s"
    by simp
  have l: "length (io # ios) = Suc (length ios)" by simp
  have p: "(toggled ^^ k) (toggled v) = (toggled ^^ Suc k) v" for k v
    by (simp add: funpow_swap1)
  from Cons.IH[OF rest, of ?s]
  have led: "ledState (fold BlinkingLedTimerEventHandler ios ?s) = (toggled ^^ length ios) (ledState ?s)"
    and wr: "writes (calls (fold BlinkingLedTimerEventHandler ios ?s)) =
      writes (calls ?s) @
      map (\<lambda>k. (blinkingLedGpioFd ?s, (toggled ^^ k) (ledState ?s))) [1..<Suc (length ios)]"
    by blast+
  show ?case
    unfolding c l led wr blink_step_ok[OF ok] p
    by (simp add: map_upt_shift del: upt_Suc funpow.simps) simp
qed

lemma blink_run_take:
  assumes "\<forall>io\<in>set ios. blink_consume io = 0 \<and> blink_set io = 0" "k < length ios"
  shows "ledState (fold BlinkingLedTimerEventHandler (take (Suc k) ios) st) =
        toggled (ledState (fold BlinkingLedTimerEventHandler (take k ios) st))"
proof -
  have pre: "\<forall>io\<in>set (take j ios). blink_consume io = 0 \<and> blink_set io = 0" for j
    using assms(1) by (auto dest: in_set_takeD)
  have a: "ledState (fold BlinkingLedTimerEventHandler (take (Suc k) ios) st) =
        (toggled ^^ length (take (Suc k) ios)) (ledState st)"
    using blink_run[OF pre, of "Suc k" st] by blast
  have b: "ledState (fold BlinkingLedTimerEventHandler (take k ios) st) =
        (toggled ^^ length (take k ios)) (ledState st)"
    using blink_run[OF pre, of k st] by blast
  have c: "length (take (Suc k) ios) = Suc k" "length (take k ios) = k"
    using assms(2) by simp_all
  show ?thesis unfolding a b c by simp
qed


subsection \<open>The loop, initialisation and teardown\<close>

lemma dispatch_loop_terminated:
  "terminationRequired st \<Longrightarrow> dispatch_loop st evs = Some (st, evs)"
  by (cases evs) simp_all

lemma dispatch_loop_None_running:
  "dispatch_loop st evs = None \<Longrightarrow> \<not> terminationRequired st"
  by (cases evs) (simp_all split: if_splits)

lemma dispatch_loop_append:
  "dispatch_loop st pre = None \<Longrightarrow>
   dispatch_loop st (pre @ es) = dispatch_loop (fold loop_body pre st) es \<and>
   \<not> terminationRequired (fold loop_body pre st)"
proof (induction pre arbitrary: st)
  case Nil
  then show ?case by (simp split: if_splits)
next
  case (Cons e pre)
  from Cons.prems have a: "\<not> terminationRequired st" and b: "dispatch_loop (loop_body e st) pre = None"
    by (simp_all split: if_splits)
  from Cons.IH[OF b] a show ?case by simp
qed

lemma init_all_ok:
  assumes "\<forall>fd\<in>set (init_steps io). 0 \<le> fd"
  shows "fst (InitPeripheralsAndHandlers io initial_globals) = 0"
    and "descriptors (snd (InitPeripheralsAndHandlers io initial_globals)) = init_steps io"
    and "opens (calls (snd (InitPeripheralsAndHandlers io initial_globals))) = init_steps io"
    and "closes (calls (snd (InitPeripheralsAndHandlers io initial_globals))) = []"
    and "waits (calls (snd (InitPeripheralsAndHandlers io initial_globals))) = 0"
    and "\<not> terminationRequired (snd (InitPeripheralsAndHandlers io initial_globals))"
  using assms
  by (simp_all add: init_steps_def InitPeripheralsAndHandlers_def Let_def emit_def emits_def
      initial_globals_def descriptors_def opens_simps closes_simps waits_simps)

lemma main_start_alt:
  "main_start io =
     (let st = snd (InitPeripheralsAndHandlers io initial_globals);
          st1 = (if sigterm_in_init io then TerminationHandler st else st)
      in if fst (InitPeripheralsAndHandlers io initial_globals) \<noteq> 0
         then st1\<lparr>terminationRequired := True\<rparr> else st1)"
  by (simp add: main_start_def case_prod_beta Let_def)

lemma main_start_ok:
  assumes "\<forall>fd\<in>set (init_steps io). 0 \<le> fd"
  shows "descriptors (main_start io) = init_steps io"
    and "terminationRequired (main_start io) = sigterm_in_init io"
    and "opens (calls (main_start io)) = init_steps io"
    and "closes (calls (main_start io)) = []"
    and "waits (calls (main_start io)) = 0"
  using init_all_ok[OF assms]
  by (simp_all add: main_start_alt TerminationHandler_def descriptors_def Let_def)

lemma init_failed:
  assumes "\<exists>fd\<in>set (init_steps io). fd < 0"
  shows "fst (InitPeripheralsAndHandlers io initial_globals) \<noteq> 0"
  using assms
  by (auto simp add: init_steps_def InitPeripheralsAndHandlers_def Let_def emit_def)

lemma main_start_failed:
  assumes "\<exists>fd\<in>set (init_steps io). fd < 0"
  shows "terminationRequired (main_start io)"
  using init_failed[OF assms]
  by (simp add: main_start_alt TerminationHandler_def Let_def)

lemma main_start_running:
  assumes "\<not> terminationRequired (main_start io)"
  shows "\<forall>fd\<in>set (init_steps io). 0 \<le> fd"
  using assms main_start_failed[of io] by fastforce

lemma init_unwound:
  "opens (calls (snd (InitPeripheralsAndHandlers io initial_globals))) =
     take (Suc (length (opened io))) (init_steps io) \<and>
   descriptors (snd (InitPeripheralsAndHandlers io initial_globals)) =
     take (Suc (length (opened io))) (init_steps io) @ replicate (5 - length (opened io)) (- 1) \<and>
   closes (calls (snd (InitPeripheralsAndHandlers io initial_globals))) = [] \<and>
   waits (calls (snd (InitPeripheralsAndHandlers io initial_globals))) = 0"
  by (simp add: opened_def init_steps_def InitPeripheralsAndHandlers_def Let_def emit_def emits_def
      initial_globals_def descriptors_def opens_simps closes_simps waits_simps)
     (simp add: eval_nat_numeral)

lemma main_start_unwound:
  assumes "\<exists>fd\<in>set (init_steps io). fd < 0"
  shows "opens (calls (main_start io)) = take (Suc (length (opened io))) (init_steps io)"
    and "descriptors (main_start io) =
       take (Suc (length (opened io))) (init_steps io) @ replicate (5 - length (opened io)) (- 1)"
    and "closes (calls (main_start io)) = []"
    and "waits (calls (main_start io)) = 0"
  using init_unwound[of io]
  by (simp_all add: main_start_alt TerminationHandler_def descriptors_def Let_def)

lemma main_start_fields:
  "blinkingLedTimerFd (main_start io) = blinkingLedTimerFd (snd (InitPeripheralsAndHandlers io initial_globals))"
  "blinkingLedGpioFd (main_start io) = blinkingLedGpioFd (snd (InitPeripheralsAndHandlers io initial_globals))"
  "buttonPollTimerFd (main_start io) = buttonPollTimerFd (snd (InitPeripheralsAndHandlers io initial_globals))"
  "ledBlinkRateButtonGpioFd (main_start io) = ledBlinkRateButtonGpioFd (snd (InitPeripheralsAndHandlers io initial_globals))"
  "epollFd (main_start io) = epollFd (snd (InitPeripheralsAndHandlers io initial_globals))"
  by (simp_all add: main_start_alt TerminationHandler_def Let_def)

lemma opened_failed:
  assumes "\<exists>fd\<in>set (init_steps io). fd < 0"
  shows "length (opened io) \<le> 5" "opened io = take (length (opened io)) (init_steps io)"
    "init_steps io ! length (opened io) < 0"
proof -
  have len: "length (init_steps io) = 6" by (simp add: init_steps_def)
  have "length (opened io) \<noteq> length (init_steps io)"
  proof
    assume "length (opened io) = length (init_steps io)"
    then have "takeWhile (\<lambda>fd. 0 \<le> fd) (init_steps io) = init_steps io"
      unfolding opened_def using takeWhile_eq_take[of "\<lambda>fd. 0 \<le> fd" "init_steps io"] by simp
    then have "\<forall>fd\<in>set (init_steps io). 0 \<le> fd"
      by (simp only: takeWhile_eq_all_conv)
    with assms show False by force
  qed
  moreover have "length (opened io) \<le> length (init_steps io)"
    unfolding opened_def by (rule length_takeWhile_le)
  ultimately have lt: "length (opened io) < length (init_steps io)" by simp
  with len show "length (opened io) \<le> 5" by simp
  show "opened io = take (length (opened io)) (init_steps io)"
    unfolding opened_def by (rule takeWhile_eq_take)
  from lt
  show "init_steps io ! length (opened io) < 0"
    unfolding opened_def using nth_length_takeWhile[of "\<lambda>fd. 0 \<le> fd" "init_steps io"] by simp
qed

lemma init_failed_valid:
  assumes "\<exists>fd\<in>set (init_steps io). fd < 0"
  shows "filter (\<lambda>fd. 0 \<le> fd)
      [blinkingLedTimerFd (snd (InitPeripheralsAndHandlers io initial_globals)),
       blinkingLedGpioFd (snd (InitPeripheralsAndHandlers io initial_globals)),
       buttonPollTimerFd (snd (InitPeripheralsAndHandlers io initial_globals)),
       ledBlinkRateButtonGpioFd (snd (InitPeripheralsAndHandlers io initial_globals)),
       epollFd (snd (InitPeripheralsAndHandlers io initial_globals))] = rev (opened io)"
  using assms
  by (simp add: opened_def init_steps_def InitPeripheralsAndHandlers_def Let_def emit_def emits_def
      initial_globals_def) linarith

lemma teardown_closes:
  "closes (calls (ClosePeripheralsAndHandlers set_ret st)) =
     closes (calls st) @
     filter (\<lambda>fd. 0 \<le> fd) [blinkingLedTimerFd st, blinkingLedGpioFd st, buttonPollTimerFd st,
        ledBlinkRateButtonGpioFd st, epollFd st]"
  by (simp add: ClosePeripheralsAndHandlers_def CloseFdAndPrintError_def Let_def emit_def closes_simps)

lemma teardown_frame:
  "opens (calls (ClosePeripheralsAndHandlers set_ret st)) = opens (calls st)"
  "waits (calls (ClosePeripheralsAndHandlers set_ret st)) = waits (calls st)"
  "descriptors (ClosePeripheralsAndHandlers set_ret st) = descriptors st"
  by (simp_all add: ClosePeripheralsAndHandlers_def CloseFdAndPrintError_def Let_def emit_def
      opens_simps waits_simps descriptors_def)

lemma handler_descriptors:
  "descriptors (ButtonTimerEventHandler b st) = descriptors st"
  "descriptors (BlinkingLedTimerEventHandler c st) = descriptors st"
  by (simp_all add: ButtonTimerEventHandler_def BlinkingLedTimerEventHandler_def Let_def
      emit_def emits_def descriptors_def)

lemma loop_body_descriptors: "descriptors (loop_body ev st) = descriptors st"
proof -
  have e: "descriptors (emit c st) = descriptors st" for c
    by (simp add: emit_def descriptors_def)
  have t: "descriptors (s\<lparr>terminationRequired := True\<rparr>) = descriptors s" for s
    by (simp add: descriptors_def)
  show ?thesis
    by (cases ev; cases "fst ev")
      (simp_all add: loop_body_def WaitForEventAndCallHandler_def TerminationHandler_def
        handler_descriptors e t Let_def)
qed

lemma fold_loop_body_descriptors: "descriptors (fold loop_body evs st) = descriptors st"
  by (induction evs arbitrary: st) (simp_all add: loop_body_descriptors)

lemma ends_loop_sets_flag: "ends_loop ev \<Longrightarrow> terminationRequired (loop_body ev st)"
proof (cases ev)
  case (Pair w sg)
  assume e: "ends_loop ev"
  show ?thesis
  proof (cases sg)
    case True
    with Pair show ?thesis by (simp add: loop_body_def TerminationHandler_def Let_def case_prod_beta)
  next
    case False
    with Pair e show ?thesis
      by (cases w)
        (auto simp add: loop_body_def WaitForEventAndCallHandler_def ButtonTimerEventHandler_def
          BlinkingLedTimerEventHandler_def Let_def emit_def)
  qed
qed

lemma dispatch_loop_ends:
  "\<exists>ev\<in>set evs. ends_loop ev \<Longrightarrow> \<exists>st' rest. dispatch_loop st evs = Some (st', rest)"
proof (induction evs arbitrary: st)
  case Nil
  then show ?case by simp
next
  case (Cons ev evs)
  show ?case
  proof (cases "terminationRequired st")
    case True
    then show ?thesis by simp
  next
    case False
    show ?thesis
    proof (cases "ends_loop ev")
      case True
      from dispatch_loop_terminated[OF ends_loop_sets_flag[OF True, of st], of evs] False
      show ?thesis by simp
    next
      case e: False
      with Cons.prems have "\<exists>ev\<in>set evs. ends_loop ev" by simp
      from Cons.IH[OF this, of "loop_body ev st"] False show ?thesis by simp
    qed
  qed
qed

lemma main_start_sigterm: "sigterm_in_init io \<Longrightarrow> terminationRequired (main_start io)"
  by (simp add: main_start_alt TerminationHandler_def Let_def)

lemma main_returns_zero: "main io evs set_ret = Some r \<Longrightarrow> exit_code r = 0"
  by (auto simp add: main_def split: option.splits)

lemma main_some_iff:
  "(\<exists>r. main io evs set_ret = Some r) \<longleftrightarrow> (\<exists>st rest. dispatch_loop (main_start io) evs = Some (st, rest))"
  by (auto simp add: main_def split: option.splits)

lemma running_descriptors:
  assumes "dispatch_loop (main_start io) pre = None"
  shows "descriptors (fold loop_body pre (main_start io)) = init_steps io"
    and "\<forall>fd\<in>set (init_steps io). 0 \<le> fd"
    and "\<not> terminationRequired (fold loop_body pre (main_start io))"
proof -
  from dispatch_loop_None_running[OF assms]
  show ok: "\<forall>fd\<in>set (init_steps io). 0 \<le> fd" by (rule main_start_running)
  show "descriptors (fold loop_body pre (main_start io)) = init_steps io"
    by (simp add: fold_loop_body_descriptors main_start_ok(1)[OF ok])
  from dispatch_loop_append[OF assms, of "[]"]
  show "\<not> terminationRequired (fold loop_body pre (main_start io))" by blast
qed

lemma loop_body_read_fails:
  assumes "btn_consume b = 0" "btn_get b \<noteq> 0"
  shows "loop_body (Wait_button b, sg) s =
     s\<lparr>calls := calls s @ [epoll_wait (epollFd s),
                            ConsumeTimerFdEvent (buttonPollTimerFd s) 0,
                            GPIO_GetValue (ledBlinkRateButtonGpioFd s) (btn_get b)],
       terminationRequired := True\<rparr>"
  by (simp add: loop_body_def WaitForEventAndCallHandler_def button_read_fails[OF assms]
      TerminationHandler_def Let_def emit_def)

lemma teardown_all_open:
  assumes "0 \<le> blinkingLedGpioFd s" "0 \<le> blinkingLedTimerFd s" "0 \<le> buttonPollTimerFd s"
    "0 \<le> ledBlinkRateButtonGpioFd s" "0 \<le> epollFd s"
  shows "ClosePeripheralsAndHandlers set_ret s =
    s\<lparr>calls := calls s @ [GPIO_SetValue (blinkingLedGpioFd s) GPIO_Value_High set_ret,
        close_fd (blinkingLedTimerFd s), close_fd (blinkingLedGpioFd s),
        close_fd (buttonPollTimerFd s), close_fd (ledBlinkRateButtonGpioFd s),
        close_fd (epollFd s)]\<rparr>"
  using assms
  by (simp add: ClosePeripheralsAndHandlers_def CloseFdAndPrintError_def Let_def emit_def)

lemma line_level_press_display: "foldl (line_step fd) lv press_display = lv"
  by (simp add: press_display_def)

lemma button_keeps_line:
  "line_agrees st \<Longrightarrow> line_agrees (ButtonTimerEventHandler b st)"
  by (simp add: line_agrees_def ButtonTimerEventHandler_def Let_def emit_def emits_def
      line_level_append line_level_press_display)

lemma blink_keeps_line:
  "line_agrees st \<Longrightarrow> \<not> terminationRequired (BlinkingLedTimerEventHandler c st)
     \<Longrightarrow> line_agrees (BlinkingLedTimerEventHandler c st)"
  by (simp add: line_agrees_def BlinkingLedTimerEventHandler_def Let_def emit_def
      line_level_append split: if_splits)

lemma emit_wait_keeps_line: "line_agrees st \<Longrightarrow> line_agrees (emit (epoll_wait fd) st)"
  by (simp add: line_agrees_def emit_def line_level_append)

lemma loop_body_keeps_line:
  assumes "line_agrees st" "\<not> terminationRequired (loop_body ev st)"
  shows "line_agrees (loop_body ev st)"
proof (cases ev)
  case (Pair w sg)
  with assms(2) have sg: "\<not> sg"
    by (auto simp add: loop_body_def TerminationHandler_def Let_def case_prod_beta)
  show ?thesis
  proof (cases w)
    case Wait_failed
    with Pair sg assms(2) show ?thesis
      by (simp add: loop_body_def WaitForEventAndCallHandler_def Let_def)
  next
    case Wait_interrupted
    with Pair sg emit_wait_keeps_line[OF assms(1)] show ?thesis
      by (simp add: loop_body_def WaitForEventAndCallHandler_def Let_def)
  next
    case (Wait_button b)
    with Pair sg button_keeps_line[OF emit_wait_keeps_line[OF assms(1)]] show ?thesis
      by (simp add: loop_body_def WaitForEventAndCallHandler_def Let_def)
  next
    case (Wait_blink c)
    with Pair sg assms(2)
    have "\<not> terminationRequired (BlinkingLedTimerEventHandler c (emit (epoll_wait (epollFd st)) st))"
      by (simp add: loop_body_def WaitForEventAndCallHandler_def Let_def)
    from blink_keeps_line[OF emit_wait_keeps_line[OF assms(1)] this] Wait_blink Pair sg
    show ?thesis
      by (simp add: loop_body_def WaitForEventAndCallHandler_def Let_def)
  qed
qed

lemma running_keeps_line:
  "line_agrees st \<Longrightarrow> dispatch_loop st pre = None \<Longrightarrow> line_agrees (fold loop_body pre st)"
proof (induction pre arbitrary: st)
  case Nil
  then show ?case by simp
next
  case (Cons ev pre)
  from Cons.prems(2) have a: "\<not> terminationRequired st"
    and b: "dispatch_loop (loop_body ev st) pre = None"
    by (simp_all split: if_splits)
  from dispatch_loop_None_running[OF b] have "\<not> terminationRequired (loop_body ev st)" .
  from loop_body_keeps_line[OF Cons.prems(1) this] have "line_agrees (loop_body ev st)" .
  from Cons.IH[OF this b] show ?case by simp
qed

lemma init_line_agrees:
  assumes "\<forall>fd\<in>set (init_steps io). 0 \<le> fd"
  shows "line_agrees (snd (InitPeripheralsAndHandlers io initial_globals))"
  using assms
  by (simp add: line_agrees_def line_level_def init_steps_def InitPeripheralsAndHandlers_def
      Let_def emit_def emits_def initial_globals_def)

lemma main_start_line_agrees:
  assumes "\<not> terminationRequired (main_start io)"
  shows "line_agrees (main_start io)"
  using init_line_agrees[OF main_start_running[OF assms]] init_all_ok(1)[OF main_start_running[OF assms]]
  by (simp add: main_start_alt TerminationHandler_def Let_def line_agrees_def)

lemma line_agrees_while_running:
  assumes "dispatch_loop (main_start io) pre = None"
  shows "line_agrees (fold loop_body pre (main_start io))"
  by (rule running_keeps_line[OF main_start_line_agrees[OF dispatch_loop_None_running[OF assms]] assms])

lemma button_keeps_index_range:
  assumes "0 \<le> blinkIntervalIndex st" "blinkIntervalIndex st < 3"
  shows "0 \<le> blinkIntervalIndex (ButtonTimerEventHandler b st) \<and>
         blinkIntervalIndex (ButtonTimerEventHandler b st) < 3"
  using button_step_cases[OF assms, of b] assms by auto

lemma blink_keeps_index: "blinkIntervalIndex (BlinkingLedTimerEventHandler c st) = blinkIntervalIndex st"
  by (simp add: BlinkingLedTimerEventHandler_def Let_def emit_def)

lemma loop_body_keeps_index_range:
  assumes "0 \<le> blinkIntervalIndex st" "blinkIntervalIndex st < 3"
  shows "0 \<le> blinkIntervalIndex (loop_body ev st) \<and> blinkIntervalIndex (loop_body ev st) < 3"
proof -
  have e: "blinkIntervalIndex (emit c st) = blinkIntervalIndex st" for c
    by (simp add: emit_def)
  from assms have r: "0 \<le> blinkIntervalIndex (emit c st)" "blinkIntervalIndex (emit c st) < 3" for c
    by (simp_all add: e)
  show ?thesis
    using assms button_keeps_index_range[OF r]
    by (cases ev; cases "fst ev"; cases "snd ev")
      (simp_all add: loop_body_def WaitForEventAndCallHandler_def TerminationHandler_def
        blink_keeps_index e Let_def)
qed

lemma main_start_index: "blinkIntervalIndex (main_start io) = 0"
  by (simp add: main_start_alt TerminationHandler_def Let_def InitPeripheralsAndHandlers_def
      emit_def emits_def initial_globals_def)

lemma index_in_range:
  "0 \<le> blinkIntervalIndex (fold loop_body evs (main_start io)) \<and>
   blinkIntervalIndex (fold loop_body evs (main_start io)) < 3"
proof -
  have "0 \<le> blinkIntervalIndex st \<Longrightarrow> blinkIntervalIndex st < 3 \<Longrightarrow>
     0 \<le> blinkIntervalIndex (fold loop_body evs st) \<and> blinkIntervalIndex (fold loop_body evs st) < 3" for st
  proof (induction evs arbitrary: st)
    case Nil
    then show ?case by simp
  next
    case (Cons ev evs)
    from loop_body_keeps_index_range[OF Cons.prems, of ev]
    have "0 \<le> blinkIntervalIndex (loop_body ev st)" "blinkIntervalIndex (loop_body ev st) < 3"
      by blast+
    from Cons.IH[OF this] show ?case by simp
  qed
  from this[of "main_start io"] show ?thesis by (simp add: main_start_index)
qed


subsection \<open>The run in which every opening call succeeds\<close>

lemma start_all_open:
  "main_start all_open =
     \<lparr> ledBlinkRateButtonGpioFd = 4, buttonPollTimerFd = 5, blinkingLedGpioFd = 6,
       blinkingLedTimerFd = 7, i2cFd = 8, epollFd = 3,
       buttonState = GPIO_Value_High, ledState = GPIO_Value_High,
       blinkIntervalIndex = 0, terminationRequired = False,
       calls = [sigaction_SIGTERM 0, CreateEpollFd 3, GPIO_OpenAsInput 4,
             CreateTimerFdAndAddToEpoll 3 (0, 1000000) buttonEventData 5,
             GPIO_OpenAsOutput GPIO_Value_High 6,
             CreateTimerFdAndAddToEpoll 3 (0, 125000000) blinkingLedTimerEventData 7,
             I2CMaster_Open 8, I2CMaster_SetBusSpeed 8 0, OLED_Init 8 True,
             OLED_SetTextPos 0 3, OLED_PutString ''Display checked!'',
             OLED_SetInverseDisplay, nanosleep (0, 250000000),
             OLED_SetNormalDisplay] \<rparr>"
  by (simp add: main_start_def InitPeripheralsAndHandlers_def initial_globals_def all_open_def
      emit_def emits_def Let_def blinkIntervals_def)

lemma four_presses: "presses (calls (fold ButtonTimerEventHandler
       [poll_low, poll_high, poll_low, poll_high, poll_low, poll_high, poll_low]
       (main_start all_open))) = 4"
  by (simp add: start_all_open ButtonTimerEventHandler_def emit_def emits_def Let_def poll_low_def poll_high_def
     presses_def rearms_simps rearms_press_display signed_modulo_int_def numBlinkIntervals_def)


section \<open>The claims\<close>

text \<open>
  Claim C1. Whenever the dispatch loop exits, by a termination request or by an internal
  error, teardown closes every resource that was opened during initialisation, once, in
  the reverse of the order of creation, after setting the output line to High.
  \<open>ClosePeripheralsAndHandlers\<close> does so for five of the six descriptors and never
  names \<open>i2cFd\<close>: in the run where every opening call succeeds (descriptors 3 to 8)
  and the loop exits on SIGTERM, and in the run where it exits on a failed read of the
  button, the six descriptors were opened, 7, 6, 5, 4, 3 are closed in this order, and the
  descriptor 8 returned by \<open>I2CMaster_Open\<close> is not closed.
\<close>

theorem teardown_leaves_i2c_open:
  "(\<exists>r. main all_open [(Wait_interrupted, True)] 0 = Some r \<and>
        opens (calls (final r)) = [3, 4, 5, 6, 7, 8] \<and> i2cFd (final r) = 8 \<and>
        closes (calls (final r)) = [7, 6, 5, 4, 3] \<and> 8 \<notin> set (closes (calls (final r)))) \<and>
   (\<exists>r. main all_open [(Wait_button poll_read_fails, False)] 0 = Some r \<and>
        opens (calls (final r)) = [3, 4, 5, 6, 7, 8] \<and> i2cFd (final r) = 8 \<and>
        closes (calls (final r)) = [7, 6, 5, 4, 3] \<and> 8 \<notin> set (closes (calls (final r))))"
  by (simp add: main_def start_all_open loop_body_def WaitForEventAndCallHandler_def
      ButtonTimerEventHandler_def TerminationHandler_def ClosePeripheralsAndHandlers_def
      CloseFdAndPrintError_def emit_def Let_def poll_read_fails_def poll_low_def
      opens_simps closes_simps)

text \<open>
  Claim C2. On a firing of the poll timer whose read of the input line succeeds, a press
  event is emitted exactly when the stored button level is High (released) and the level
  read is Low (pressed); a run of consecutive successful reads of the pressed level emits
  no further press: such a run holds one press when it starts from the stored level High,
  emitted by its first read, and none when it starts from the stored level Low. A press
  event is counted by \<open>presses\<close>. The read is only made when consuming the firing
  succeeded.
\<close>

theorem press_iff_falling_edge:
  assumes "btn_consume io = 0" and "btn_get io = 0"
    and "\<forall>r\<in>set run. btn_consume r = 0 \<and> btn_get r = 0 \<and> btn_value r = GPIO_Value_Low"
  shows "(presses (calls (ButtonTimerEventHandler io st)) = Suc (presses (calls st))
            \<longleftrightarrow> buttonState st = GPIO_Value_High \<and> btn_value io = GPIO_Value_Low) \<and>
         (presses (calls (ButtonTimerEventHandler io st)) = presses (calls st)
            \<longleftrightarrow> \<not> (buttonState st = GPIO_Value_High \<and> btn_value io = GPIO_Value_Low)) \<and>
         presses (calls (fold ButtonTimerEventHandler run st)) =
           presses (calls st) + (if buttonState st = GPIO_Value_High \<and> run \<noteq> [] then 1 else 0)"
proof -
  have step: "presses (calls (ButtonTimerEventHandler io st)) =
      presses (calls st) +
      (if buttonState st = GPIO_Value_High \<and> btn_value io = GPIO_Value_Low then 1 else 0)"
    by (rule button_step_presses[OF assms(1,2)])
  have run: "presses (calls (fold ButtonTimerEventHandler run st)) =
      presses (calls st) + (if buttonState st = GPIO_Value_High \<and> run \<noteq> [] then 1 else 0)"
    by (rule low_run[OF assms(3)])
  show ?thesis
    unfolding step run by simp
qed

theorem press_iff_falling_edge_witness:
  "btn_consume poll_low = 0 \<and> btn_get poll_low = 0 \<and>
   btn_value poll_low = GPIO_Value_Low \<and>
   presses (calls (ButtonTimerEventHandler poll_low initial_globals)) = 1 \<and>
   presses (calls (fold ButtonTimerEventHandler [poll_low, poll_low] initial_globals)) = 1"
  using press_iff_falling_edge[of poll_low "[poll_low, poll_low]" initial_globals]
  by (simp add: poll_low_def initial_globals_def presses_def rearms_def)

text \<open>
  Claim C3. Starting from blink-interval index 0, after any sequence of poll-timer firings
  that holds N press events the index is N mod 3, and the N calls that rearm the blink
  timer carry, in order, the table entries at the indices 1 mod 3, 2 mod 3, ..., N mod 3,
  that is each press rearms the timer to the entry at the new index. With N = 4 the index
  is 1 and the last period is 250 ms. The statement holds whatever the calls of the
  firings return; in particular when every rearming succeeds.
\<close>

theorem index_counts_presses_mod_3:
  assumes "blinkIntervalIndex st = 0"
  shows "let st' = fold ButtonTimerEventHandler ios st;
             N = presses (calls st') - presses (calls st) in
    blinkIntervalIndex st' = int (N mod 3) \<and>
    rearms (calls st') = rearms (calls st) @
       map (\<lambda>k. (blinkingLedTimerFd st, blinkIntervals ! (k mod 3))) [1..<Suc N] \<and>
    (N = 4 \<longrightarrow> blinkIntervalIndex st' = 1 \<and>
       last (rearms (calls st')) = (blinkingLedTimerFd st, (0, 250000000)))"
proof -
  let ?s = "fold ButtonTimerEventHandler ios st"
  from poll_run_index[of st ios] assms obtain n where
    r: "rearms (calls ?s) = rearms (calls st) @
          map (\<lambda>k. (blinkingLedTimerFd st, blinkIntervals ! nat (int k mod 3))) [1..<Suc n]"
    and i: "blinkIntervalIndex ?s = int n mod 3"
    by auto
  have n: "presses (calls ?s) - presses (calls st) = n"
    by (simp add: presses_def r del: upt_Suc)
  have m: "nat (int k mod 3) = k mod 3" for k
    by (simp add: nat_mod_as_int)
  have four: "n = 4 \<Longrightarrow> last (rearms (calls ?s)) = (blinkingLedTimerFd st, (0, 250000000))"
    by (simp add: r blinkIntervals_def upt_rec)
  show ?thesis
    unfolding Let_def n using r i four by (simp add: m zmod_int del: upt_Suc)
qed

theorem index_counts_presses_mod_3_witness:
  "blinkIntervalIndex (main_start all_open) = 0 \<and>
   blinkIntervalIndex (fold ButtonTimerEventHandler
       [poll_low, poll_high, poll_low, poll_high, poll_low, poll_high, poll_low]
       (main_start all_open)) = 1 \<and>
   last (rearms (calls (fold ButtonTimerEventHandler
       [poll_low, poll_high, poll_low, poll_high, poll_low, poll_high, poll_low]
       (main_start all_open)))) = (7, (0, 250000000))"
proof -
  have s: "blinkIntervalIndex (main_start all_open) = 0" "blinkingLedTimerFd (main_start all_open) = 7"
    "presses (calls (main_start all_open)) = 0"
    by (simp_all add: start_all_open presses_def rearms_simps)
  show ?thesis
    using index_counts_presses_mod_3[OF s(1),
        of "[poll_low, poll_high, poll_low, poll_high, poll_low, poll_high, poll_low]"]
    unfolding Let_def four_presses s by (simp add: blinkIntervals_def upt_rec)
qed

text \<open>
  Claim C4. Over any sequence of firings of the blink timer in which consuming the firing
  and writing the output line both succeed, each firing replaces the stored output level by
  the other level, once, and writes the new level to the line, once: after the firings the
  stored level has been toggled as many times as there were firings, the record of writes
  has grown by one write per firing, carrying the successive levels, and the stored level
  after each firing differs from the one before it.
\<close>

theorem led_toggles_once_per_firing:
  assumes "\<forall>io\<in>set ios. blink_consume io = 0 \<and> blink_set io = 0"
  shows "ledState (fold BlinkingLedTimerEventHandler ios st) = (toggled ^^ length ios) (ledState st) \<and>
   writes (calls (fold BlinkingLedTimerEventHandler ios st)) =
     writes (calls st) @
     map (\<lambda>k. (blinkingLedGpioFd st, (toggled ^^ k) (ledState st))) [1..<Suc (length ios)] \<and>
   (\<forall>k<length ios.
      ledState (fold BlinkingLedTimerEventHandler (take (Suc k) ios) st) =
        toggled (ledState (fold BlinkingLedTimerEventHandler (take k ios) st)) \<and>
      ledState (fold BlinkingLedTimerEventHandler (take (Suc k) ios) st) \<noteq>
        ledState (fold BlinkingLedTimerEventHandler (take k ios) st))"
proof (intro conjI allI impI)
  show "ledState (fold BlinkingLedTimerEventHandler ios st) = (toggled ^^ length ios) (ledState st)"
    using blink_run[OF assms, of st] by blast
  show "writes (calls (fold BlinkingLedTimerEventHandler ios st)) =
     writes (calls st) @
     map (\<lambda>k. (blinkingLedGpioFd st, (toggled ^^ k) (ledState st))) [1..<Suc (length ios)]"
    using blink_run[OF assms, of st] by blast
next
  fix k assume k: "k < length ios"
  show "ledState (fold BlinkingLedTimerEventHandler (take (Suc k) ios) st) =
        toggled (ledState (fold BlinkingLedTimerEventHandler (take k ios) st))"
    by (rule blink_run_take[OF assms k])
  then show "ledState (fold BlinkingLedTimerEventHandler (take (Suc k) ios) st) \<noteq>
        ledState (fold BlinkingLedTimerEventHandler (take k ios) st)"
    by (simp only: toggled_neq not_False_eq_True)
qed

theorem led_toggles_once_per_firing_witness:
  "blink_consume blink_ok = 0 \<and> blink_set blink_ok = 0 \<and>
   ledState (fold BlinkingLedTimerEventHandler [blink_ok, blink_ok, blink_ok] (main_start all_open))
     = GPIO_Value_Low \<and>
   writes (calls (fold BlinkingLedTimerEventHandler [blink_ok, blink_ok, blink_ok] (main_start all_open)))
     = [(6, GPIO_Value_Low), (6, GPIO_Value_High), (6, GPIO_Value_Low)]"
proof -
  have h: "\<forall>io\<in>set [blink_ok, blink_ok, blink_ok]. blink_consume io = 0 \<and> blink_set io = 0"
    by (simp add: blink_ok_def)
  have s: "ledState (main_start all_open) = GPIO_Value_High" "blinkingLedGpioFd (main_start all_open) = 6"
    "writes (calls (main_start all_open)) = []"
    by (simp_all add: start_all_open writes_simps)
  show ?thesis
    using led_toggles_once_per_firing[OF h, of "main_start all_open"] h
    unfolding s by (simp add: upt_rec numeral_eq_Suc)
qed

text \<open>
  Claim C5. If the read of the input line fails during a firing of the poll timer, the
  termination flag becomes true and the handler returns without a press and without
  changing the stored button level (first three conjuncts, for any state). When the
  firing arrives in a run of the program that is still waiting after the events
  \<open>pre\<close>, the loop exits as soon as the handler has returned: the events after the
  firing are not taken, and what follows the failed read in the record of calls is
  teardown, which begins by setting the output line to High and then closes the five
  descriptors; when that write succeeds the line is High.
\<close>

theorem read_failure_ends_run:
  assumes "btn_consume b = 0" and "btn_get b \<noteq> 0"
    and "dispatch_loop (main_start io) pre = None"
  shows "terminationRequired (ButtonTimerEventHandler b st) \<and>
     buttonState (ButtonTimerEventHandler b st) = buttonState st \<and>
     presses (calls (ButtonTimerEventHandler b st)) = presses (calls st) \<and>
     (\<exists>r. main io (pre @ (Wait_button b, sg) # rest) set_ret = Some r \<and>
        unconsumed r = rest \<and>
        terminationRequired (final r) \<and>
        buttonState (final r) = buttonState (fold loop_body pre (main_start io)) \<and>
        calls (final r) = calls (fold loop_body pre (main_start io)) @
          [epoll_wait (epoll_ret io),
           ConsumeTimerFdEvent (button_timer_ret io) 0,
           GPIO_GetValue (button_gpio_ret io) (btn_get b),
           GPIO_SetValue (led_gpio_ret io) GPIO_Value_High set_ret,
           close_fd (led_timer_ret io), close_fd (led_gpio_ret io),
           close_fd (button_timer_ret io), close_fd (button_gpio_ret io),
           close_fd (epoll_ret io)] \<and>
        (set_ret = 0 \<longrightarrow>
           line_level (led_gpio_ret io) (calls (final r)) = Some GPIO_Value_High))"
proof -
  let ?s = "fold loop_body pre (main_start io)"
  let ?t = "loop_body (Wait_button b, sg) ?s"
  have h: "terminationRequired (ButtonTimerEventHandler b st) \<and>
     buttonState (ButtonTimerEventHandler b st) = buttonState st \<and>
     presses (calls (ButtonTimerEventHandler b st)) = presses (calls st)"
    by (simp add: button_read_fails[OF assms(1,2)] presses_def rearms_simps)
  note run = running_descriptors[OF assms(3)]
  from run(1) have fds: "epollFd ?s = epoll_ret io" "ledBlinkRateButtonGpioFd ?s = button_gpio_ret io"
     "buttonPollTimerFd ?s = button_timer_ret io" "blinkingLedGpioFd ?s = led_gpio_ret io"
     "blinkingLedTimerFd ?s = led_timer_ret io"
    by (simp_all add: descriptors_def init_steps_def)
  from run(2) have ok: "0 \<le> epoll_ret io" "0 \<le> button_gpio_ret io" "0 \<le> button_timer_ret io"
     "0 \<le> led_gpio_ret io" "0 \<le> led_timer_ret io"
    by (simp_all add: init_steps_def)
  have t: "?t = ?s\<lparr>calls := calls ?s @ [epoll_wait (epoll_ret io),
                            ConsumeTimerFdEvent (button_timer_ret io) 0,
                            GPIO_GetValue (button_gpio_ret io) (btn_get b)],
       terminationRequired := True\<rparr>"
    by (simp add: loop_body_read_fails[OF assms(1,2)] fds)
  have tt: "terminationRequired ?t" by (simp add: t)
  have d: "dispatch_loop (main_start io) (pre @ (Wait_button b, sg) # rest) = Some (?t, rest)"
    using dispatch_loop_append[OF assms(3), of "(Wait_button b, sg) # rest"] run(3)
      dispatch_loop_terminated[OF tt, of rest]
    by simp
  have tfd: "epollFd ?t = epoll_ret io" "ledBlinkRateButtonGpioFd ?t = button_gpio_ret io"
     "buttonPollTimerFd ?t = button_timer_ret io" "blinkingLedGpioFd ?t = led_gpio_ret io"
     "blinkingLedTimerFd ?t = led_timer_ret io"
    by (simp_all add: t fds)
  have c: "ClosePeripheralsAndHandlers set_ret ?t =
     ?t\<lparr>calls := calls ?t @ [GPIO_SetValue (led_gpio_ret io) GPIO_Value_High set_ret,
        close_fd (led_timer_ret io), close_fd (led_gpio_ret io),
        close_fd (button_timer_ret io), close_fd (button_gpio_ret io),
        close_fd (epoll_ret io)]\<rparr>"
    using teardown_all_open[of ?t set_ret] ok unfolding tfd by simp
  have m: "main io (pre @ (Wait_button b, sg) # rest) set_ret =
     Some \<lparr> exit_code = 0, final = ClosePeripheralsAndHandlers set_ret ?t, unconsumed = rest \<rparr>"
    by (simp add: main_def d)
  have f: "\<exists>r. main io (pre @ (Wait_button b, sg) # rest) set_ret = Some r \<and>
        unconsumed r = rest \<and>
        terminationRequired (final r) \<and>
        buttonState (final r) = buttonState ?s \<and>
        calls (final r) = calls ?s @
          [epoll_wait (epoll_ret io),
           ConsumeTimerFdEvent (button_timer_ret io) 0,
           GPIO_GetValue (button_gpio_ret io) (btn_get b),
           GPIO_SetValue (led_gpio_ret io) GPIO_Value_High set_ret,
           close_fd (led_timer_ret io), close_fd (led_gpio_ret io),
           close_fd (button_timer_ret io), close_fd (button_gpio_ret io),
           close_fd (epoll_ret io)] \<and>
        (set_ret = 0 \<longrightarrow>
           line_level (led_gpio_ret io) (calls (final r)) = Some GPIO_Value_High)"
    unfolding m c by (simp add: t line_level_append)
  from h f show ?thesis by blast
qed

theorem read_failure_ends_run_witness:
  "btn_consume poll_read_fails = 0 \<and> btn_get poll_read_fails \<noteq> 0 \<and>
   dispatch_loop (main_start all_open) [(Wait_blink blink_ok, False)] = None \<and>
   (\<exists>r. main all_open [(Wait_blink blink_ok, False), (Wait_button poll_read_fails, False),
                        (Wait_button poll_low, False)] 0 = Some r \<and>
        unconsumed r = [(Wait_button poll_low, False)] \<and>
        terminationRequired (final r) \<and>
        buttonState (final r) = GPIO_Value_High \<and>
        writes (calls (final r)) = [(6, GPIO_Value_Low), (6, GPIO_Value_High)] \<and>
        closes (calls (final r)) = [7, 6, 5, 4, 3] \<and>
        line_level 6 (calls (final r)) = Some GPIO_Value_High)"
proof -
  have h: "btn_consume poll_read_fails = 0" "btn_get poll_read_fails \<noteq> 0"
    by (simp_all add: poll_read_fails_def poll_low_def)
  have s: "fold loop_body [(Wait_blink blink_ok, False)] (main_start all_open) =
      (main_start all_open)\<lparr>ledState := GPIO_Value_Low,
         calls := calls (main_start all_open) @
           [epoll_wait 3, ConsumeTimerFdEvent 7 0, GPIO_SetValue 6 GPIO_Value_Low 0]\<rparr>"
    by (simp add: start_all_open loop_body_def WaitForEventAndCallHandler_def
        BlinkingLedTimerEventHandler_def emit_def Let_def blink_ok_def)
  have d: "dispatch_loop (main_start all_open) [(Wait_blink blink_ok, False)] = None"
    using s by (simp add: start_all_open)
  have io: "epoll_ret all_open = 3" "button_gpio_ret all_open = 4" "button_timer_ret all_open = 5"
    "led_gpio_ret all_open = 6" "led_timer_ret all_open = 7"
    by (simp_all add: all_open_def)
  from read_failure_ends_run[OF h d, of initial_globals False "[(Wait_button poll_low, False)]" 0]
  obtain r where r: "main all_open ([(Wait_blink blink_ok, False)] @
        (Wait_button poll_read_fails, False) # [(Wait_button poll_low, False)]) 0 = Some r"
     "unconsumed r = [(Wait_button poll_low, False)]" "terminationRequired (final r)"
     "buttonState (final r) = buttonState (fold loop_body [(Wait_blink blink_ok, False)] (main_start all_open))"
     "calls (final r) = calls (fold loop_body [(Wait_blink blink_ok, False)] (main_start all_open)) @
          [epoll_wait (epoll_ret all_open),
           ConsumeTimerFdEvent (button_timer_ret all_open) 0,
           GPIO_GetValue (button_gpio_ret all_open) (btn_get poll_read_fails),
           GPIO_SetValue (led_gpio_ret all_open) GPIO_Value_High 0,
           close_fd (led_timer_ret all_open), close_fd (led_gpio_ret all_open),
           close_fd (button_timer_ret all_open), close_fd (button_gpio_ret all_open),
           close_fd (epoll_ret all_open)]"
     "line_level (led_gpio_ret all_open) (calls (final r)) = Some GPIO_Value_High"
    by auto
  have "buttonState (final r) = GPIO_Value_High"
    unfolding r(4) s by (simp add: start_all_open)
  moreover have "writes (calls (final r)) = [(6, GPIO_Value_Low), (6, GPIO_Value_High)]"
    unfolding r(5) s io by (simp add: start_all_open writes_simps)
  moreover have "closes (calls (final r)) = [7, 6, 5, 4, 3]"
    unfolding r(5) s io by (simp add: start_all_open closes_simps)
  ultimately show ?thesis
    using h d r(1,2,3,6) unfolding io by simp
qed

text \<open>
  Claim C6, as amended. The claim speaks of any step of initialisation; the source tests
  the result of the six opening calls only (\<open>CreateEpollFd\<close>, \<open>GPIO_OpenAsInput\<close>,
  the poll timer, \<open>GPIO_OpenAsOutput\<close>, the blink timer, \<open>I2CMaster_Open\<close>) and
  discards what \<open>sigaction\<close>, \<open>I2CMaster_SetBusSpeed\<close> and the display calls
  return. If one of the six opening steps fails, initialisation stops at that step: the
  opening calls made are those that succeeded followed by the one that failed, and the
  descriptors of the later steps keep the value -1. The program then goes to teardown
  without waiting for any event (no event is taken, no wait is made), and teardown closes
  exactly the descriptors opened before the failure, in the reverse of the order of
  opening; the descriptor that failed and those never opened are not closed.
\<close>

theorem failed_init_unwinds:
  assumes "\<exists>fd\<in>set (init_steps io). fd < 0"
  shows "\<exists>r. main io evs set_ret = Some r \<and>
     unconsumed r = evs \<and>
     waits (calls (final r)) = 0 \<and>
     opens (calls (final r)) = opened io @ [init_steps io ! length (opened io)] \<and>
     init_steps io ! length (opened io) < 0 \<and>
     closes (calls (final r)) = rev (opened io) \<and>
     descriptors (final r) =
       opened io @ [init_steps io ! length (opened io)] @ replicate (5 - length (opened io)) (- 1)"
proof -
  let ?s = "main_start io"
  have t: "terminationRequired ?s" by (rule main_start_failed[OF assms])
  have m: "main io evs set_ret =
     Some \<lparr> exit_code = 0, final = ClosePeripheralsAndHandlers set_ret ?s, unconsumed = evs \<rparr>"
    by (simp add: main_def dispatch_loop_terminated[OF t])
  have len: "length (init_steps io) = 6" by (simp add: init_steps_def)
  have tk: "take (Suc (length (opened io))) (init_steps io) =
      opened io @ [init_steps io ! length (opened io)]"
    using opened_failed[OF assms] len by (simp add: take_Suc_conv_app_nth)
  have d: "descriptors ?s = opened io @ [init_steps io ! length (opened io)] @
      replicate (5 - length (opened io)) (- 1)"
    using main_start_unwound(2)[OF assms] tk by simp
  have cl: "filter (\<lambda>fd. 0 \<le> fd) [blinkingLedTimerFd ?s, blinkingLedGpioFd ?s, buttonPollTimerFd ?s,
        ledBlinkRateButtonGpioFd ?s, epollFd ?s] = rev (opened io)"
    unfolding main_start_fields by (rule init_failed_valid[OF assms])
  show ?thesis
    unfolding m
    using main_start_unwound[OF assms] opened_failed[OF assms] tk d cl
    by (simp add: teardown_closes teardown_frame)
qed

theorem failed_init_unwinds_witness:
  "(\<exists>fd\<in>set (init_steps led_unavailable). fd < 0) \<and>
   (\<exists>r. main led_unavailable [(Wait_blink blink_ok, False)] 0 = Some r \<and>
        unconsumed r = [(Wait_blink blink_ok, False)] \<and>
        waits (calls (final r)) = 0 \<and>
        opens (calls (final r)) = [3, 4, 5, - 1] \<and>
        closes (calls (final r)) = [5, 4, 3] \<and>
        descriptors (final r) = [3, 4, 5, - 1, - 1, - 1])"
proof -
  have h: "\<exists>fd\<in>set (init_steps led_unavailable). fd < 0"
    by (simp add: init_steps_def led_unavailable_def all_open_def)
  have o: "opened led_unavailable = [3, 4, 5]" "init_steps led_unavailable = [3, 4, 5, - 1, 7, 8]"
    by (simp_all add: opened_def init_steps_def led_unavailable_def all_open_def)
  show ?thesis
    using failed_init_unwinds[OF h, of "[(Wait_blink blink_ok, False)]" 0] h
    unfolding o by (simp add: numeral_eq_Suc)
qed

text \<open>
  Claim C6 as it is written fails for a step whose result the source discards: when every
  descriptor is opened and \<open>I2CMaster_SetBusSpeed\<close> returns -1, initialisation goes
  on to set up the display and returns 0, the termination flag stays clear, and the
  program waits for an event before it reaches teardown.
\<close>

theorem failed_bus_speed_enters_loop:
  "bus_speed_ret bus_speed_fails < 0 \<and>
   I2CMaster_SetBusSpeed 8 (- 1) \<in> set (calls (main_start bus_speed_fails)) \<and>
   OLED_Init 8 True \<in> set (calls (main_start bus_speed_fails)) \<and>
   fst (InitPeripheralsAndHandlers bus_speed_fails initial_globals) = 0 \<and>
   \<not> terminationRequired (main_start bus_speed_fails) \<and>
   dispatch_loop (main_start bus_speed_fails) [] = None \<and>
   map_option (waits \<circ> calls \<circ> final) (main bus_speed_fails [(Wait_interrupted, True)] 0)
     = Some 1"
  by (simp add: main_def main_start_def InitPeripheralsAndHandlers_def initial_globals_def
      bus_speed_fails_def all_open_def loop_body_def WaitForEventAndCallHandler_def
      TerminationHandler_def ClosePeripheralsAndHandlers_def CloseFdAndPrintError_def
      emit_def emits_def Let_def waits_simps)

text \<open>
  Claim C7. After a firing of the poll timer in which consuming the firing and reading the
  line succeed, the stored button level is the level read, whether or not it differed from
  the level stored before and whether or not a press was emitted. (The result of rearming
  does not matter.)
\<close>

theorem stored_level_follows_read:
  assumes "btn_consume io = 0" and "btn_get io = 0"
  shows "buttonState (ButtonTimerEventHandler io st) = btn_value io"
  by (rule button_step_level[OF assms])

theorem stored_level_follows_read_witness:
  "btn_consume poll_low = 0 \<and> btn_get poll_low = 0 \<and>
   buttonState initial_globals = GPIO_Value_High \<and>
   buttonState (ButtonTimerEventHandler poll_low initial_globals) = GPIO_Value_Low \<and>
   btn_consume poll_high = 0 \<and> btn_get poll_high = 0 \<and>
   buttonState (ButtonTimerEventHandler poll_high
     (ButtonTimerEventHandler poll_low initial_globals)) = GPIO_Value_High"
  using stored_level_follows_read[of poll_low initial_globals]
    stored_level_follows_read[of poll_high "ButtonTimerEventHandler poll_low initial_globals"]
  by (simp add: poll_low_def poll_high_def initial_globals_def)

text \<open>
  Claim C8. The exit code is 0 on every path: whenever \<open>main\<close> returns, it returns 0.
  It does return when initialisation fails, when SIGTERM arrives during initialisation,
  and when the events hold a termination request or an error that ends the loop (a failed
  wait, a failed consume, a failed read or a failed write).
\<close>

theorem exit_code_always_zero:
  "(\<forall>r. main io evs set_ret = Some r \<longrightarrow> exit_code r = 0) \<and>
   ((\<exists>fd\<in>set (init_steps io). fd < 0) \<or> sigterm_in_init io \<or> (\<exists>ev\<in>set evs. ends_loop ev)
      \<longrightarrow> (\<exists>r. main io evs set_ret = Some r \<and> exit_code r = 0))"
proof (intro conjI allI impI)
  fix r assume "main io evs set_ret = Some r"
  then show "exit_code r = 0" by (rule main_returns_zero)
next
  assume a: "(\<exists>fd\<in>set (init_steps io). fd < 0) \<or> sigterm_in_init io \<or> (\<exists>ev\<in>set evs. ends_loop ev)"
  have "\<exists>st rest. dispatch_loop (main_start io) evs = Some (st, rest)"
  proof -
    consider (init) "\<exists>fd\<in>set (init_steps io). fd < 0" | (sig) "sigterm_in_init io"
      | (ev) "\<exists>ev\<in>set evs. ends_loop ev"
      using a by blast
    then show ?thesis
    proof cases
      case init
      from dispatch_loop_terminated[OF main_start_failed[OF init]] show ?thesis by blast
    next
      case sig
      from dispatch_loop_terminated[OF main_start_sigterm[OF sig]] show ?thesis by blast
    next
      case ev
      then show ?thesis by (rule dispatch_loop_ends)
    qed
  qed
  then obtain r where "main io evs set_ret = Some r" using main_some_iff by blast
  then show "\<exists>r. main io evs set_ret = Some r \<and> exit_code r = 0"
    using main_returns_zero by blast
qed

theorem exit_code_always_zero_witness:
  "(\<exists>fd\<in>set (init_steps led_unavailable). fd < 0) \<and>
   (\<exists>r. main led_unavailable [] 0 = Some r \<and> exit_code r = 0) \<and>
   (\<exists>ev\<in>set [(Wait_blink blink_ok, False), (Wait_interrupted, True)]. ends_loop ev) \<and>
   (\<exists>r. main all_open [(Wait_blink blink_ok, False), (Wait_interrupted, True)] 0 = Some r \<and>
        exit_code r = 0) \<and>
   (\<exists>ev\<in>set [(Wait_blink blink_write_fails, False)]. ends_loop ev) \<and>
   (\<exists>r. main all_open [(Wait_blink blink_write_fails, False)] 0 = Some r \<and> exit_code r = 0)"
proof -
  have a: "\<exists>fd\<in>set (init_steps led_unavailable). fd < 0"
    by (simp add: init_steps_def led_unavailable_def all_open_def)
  have b: "\<exists>ev\<in>set [(Wait_blink blink_ok, False), (Wait_interrupted, True)]. ends_loop ev"
    by simp
  have c: "\<exists>ev\<in>set [(Wait_blink blink_write_fails, False)]. ends_loop ev"
    by (simp add: blink_write_fails_def)
  show ?thesis
    using exit_code_always_zero[of led_unavailable "[]" 0]
      exit_code_always_zero[of all_open "[(Wait_blink blink_ok, False), (Wait_interrupted, True)]" 0]
      exit_code_always_zero[of all_open "[(Wait_blink blink_write_fails, False)]" 0]
      a b c
    by blast
qed

text \<open>
  Claim C9. On a firing of the blink timer where consuming the firing succeeds and the
  write of the output line fails, the stored output level has already been toggled: the
  termination flag is set and the stored level is not restored, so that, the stored level
  having agreed with the line before the firing, the line keeps its level and the two
  disagree afterwards. The level of the line is read off the record of calls by
  \<open>line_level\<close>; the stored level agrees with the line in every state in which the
  program is still running (\<open>line_agrees_while_running\<close>).
\<close>

theorem failed_write_keeps_toggle:
  assumes "blink_consume io = 0" and "blink_set io \<noteq> 0" and "line_agrees st"
  shows "terminationRequired (BlinkingLedTimerEventHandler io st) \<and>
    ledState (BlinkingLedTimerEventHandler io st) = toggled (ledState st) \<and>
    ledState (BlinkingLedTimerEventHandler io st) \<noteq> ledState st \<and>
    line_level (blinkingLedGpioFd st) (calls (BlinkingLedTimerEventHandler io st)) =
      Some (ledState st) \<and>
    \<not> line_agrees (BlinkingLedTimerEventHandler io st)"
  using assms
  by (cases "ledState st";
      simp add: line_agrees_def BlinkingLedTimerEventHandler_def Let_def emit_def line_level_append)

theorem failed_write_keeps_toggle_witness:
  "blink_consume blink_write_fails = 0 \<and> blink_set blink_write_fails \<noteq> 0 \<and>
   line_agrees (main_start all_open) \<and>
   terminationRequired (BlinkingLedTimerEventHandler blink_write_fails (main_start all_open)) \<and>
   ledState (BlinkingLedTimerEventHandler blink_write_fails (main_start all_open)) = GPIO_Value_Low \<and>
   line_level 6 (calls (BlinkingLedTimerEventHandler blink_write_fails (main_start all_open))) =
     Some GPIO_Value_High"
proof -
  have h: "blink_consume blink_write_fails = 0" "blink_set blink_write_fails \<noteq> 0"
    "line_agrees (main_start all_open)"
    by (simp_all add: start_all_open blink_write_fails_def line_level_def line_agrees_def)
  have s: "ledState (main_start all_open) = GPIO_Value_High" "blinkingLedGpioFd (main_start all_open) = 6"
    by (simp_all add: start_all_open)
  show ?thesis
    using failed_write_keeps_toggle[OF h] h
    by (simp add: s)
qed

text \<open>
  Claim C10. On a press event whose rearming of the blink timer fails, the termination flag
  is set, the blink-interval index has advanced by one modulo the table length, and the
  stored button level is the pressed level that was read: the failure rolls back neither
  change.
\<close>

theorem failed_rearm_keeps_changes:
  assumes "btn_consume io = 0" and "btn_get io = 0" and "btn_value io = GPIO_Value_Low"
    and "buttonState st = GPIO_Value_High" and "btn_rearm io \<noteq> 0"
  shows "terminationRequired (ButtonTimerEventHandler io st) \<and>
     blinkIntervalIndex (ButtonTimerEventHandler io st) =
       (blinkIntervalIndex st + 1) smod numBlinkIntervals \<and>
     buttonState (ButtonTimerEventHandler io st) = GPIO_Value_Low \<and>
     (0 \<le> blinkIntervalIndex st \<and> blinkIntervalIndex st < numBlinkIntervals \<longrightarrow>
        blinkIntervalIndex (ButtonTimerEventHandler io st) = (blinkIntervalIndex st + 1) mod 3 \<and>
        blinkIntervalIndex (ButtonTimerEventHandler io st) \<noteq> blinkIntervalIndex st)"
  using assms
  apply (simp add: ButtonTimerEventHandler_def Let_def emit_def emits_def)
  apply (cases "blinkIntervalIndex st + 1 = 0")
  apply (simp_all add: signed_modulo_int_def numBlinkIntervals_def)
  by presburger

theorem failed_rearm_keeps_changes_witness:
  "btn_consume poll_rearm_fails = 0 \<and> btn_get poll_rearm_fails = 0 \<and>
   btn_value poll_rearm_fails = GPIO_Value_Low \<and> buttonState (main_start all_open) = GPIO_Value_High \<and>
   btn_rearm poll_rearm_fails \<noteq> 0 \<and>
   terminationRequired (ButtonTimerEventHandler poll_rearm_fails (main_start all_open)) \<and>
   blinkIntervalIndex (ButtonTimerEventHandler poll_rearm_fails (main_start all_open)) = 1 \<and>
   buttonState (ButtonTimerEventHandler poll_rearm_fails (main_start all_open)) = GPIO_Value_Low"
proof -
  have h: "btn_consume poll_rearm_fails = 0" "btn_get poll_rearm_fails = 0"
   "btn_value poll_rearm_fails = GPIO_Value_Low" "buttonState (main_start all_open) = GPIO_Value_High"
   "btn_rearm poll_rearm_fails \<noteq> 0"
    by (simp_all add: start_all_open poll_rearm_fails_def poll_low_def)
  have i: "blinkIntervalIndex (main_start all_open) = 0" by (simp add: start_all_open)
  show ?thesis
    using failed_rearm_keeps_changes[OF h] h
    by (simp add: i numBlinkIntervals_def)
qed


end
